theory Spec2Isabelle
  imports Main "HOL-Library.Sublist" "HOL-Library.FSet" "HOL-Library.Finite_Map"
    "HOL-Library.Char_ord" "HOL-Library.List_Lexorder"
begin

section \<open>GenerateTextures.py: strings and path names\<close>

text \<open>
  Python strings are modelled as \<open>string\<close>; the case and whitespace functions are
  the ASCII ones. A path is the list of its components, so \<open>os.path.join(d, n)\<close> for a
  single name \<open>n\<close> appends one component and \<open>os.path.basename\<close> reads the last one.
\<close>

type_synonym path = "string list"
type_synonym bytes = string

definition lower_char :: "char \<Rightarrow> char" where
  "lower_char c =
     (case map_of (zip ''ABCDEFGHIJKLMNOPQRSTUVWXYZ'' ''abcdefghijklmnopqrstuvwxyz'') c of
        Some l \<Rightarrow> l
      | None \<Rightarrow> c)"

definition lower :: "string \<Rightarrow> string" where
  "lower s = map lower_char s"

definition is_space :: "char \<Rightarrow> bool" where
  "is_space c =
     (c \<in> set [CHR 0x09, CHR 0x0A, CHR 0x0B, CHR 0x0C, CHR 0x0D,
                CHR 0x1C, CHR 0x1D, CHR 0x1E, CHR 0x1F, CHR 0x20])"

definition strip :: "string \<Rightarrow> string" where
  "strip s = rev (dropWhile is_space (rev (dropWhile is_space s)))"

definition endswith :: "string \<Rightarrow> string \<Rightarrow> bool" where
  "endswith s suf = (length suf \<le> length s \<and> drop (length s - length suf) s = suf)"

text \<open>\<open>str.rfind\<close> of one character: the last index holding it, or \<open>-1\<close>.\<close>

fun rfind_from :: "char \<Rightarrow> string \<Rightarrow> int \<Rightarrow> int \<Rightarrow> int" where
  "rfind_from c [] i found = found"
| "rfind_from c (x # xs) i found = rfind_from c xs (i + 1) (if x = c then i else found)"

definition rfind :: "string \<Rightarrow> char \<Rightarrow> int" where
  "rfind p c = rfind_from c p 0 (-1)"

text \<open>
  \<open>os.path.splitext\<close> (genericpath.\_splitext with separator \<open>/\<close>): the extension
  starts at the last dot, unless that dot comes before the last separator or only dots
  lie between the separator and it.
\<close>

definition splitext :: "string \<Rightarrow> string \<times> string" where
  "splitext p =
     (let sepIndex = rfind p (CHR ''/'');
          dotIndex = rfind p (CHR ''.'')
      in if dotIndex > sepIndex \<and>
            list_ex (\<lambda>ch. ch \<noteq> CHR ''.'')
              (take (nat (dotIndex - (sepIndex + 1))) (drop (nat (sepIndex + 1)) p))
         then (take (nat dotIndex) p, drop (nat dotIndex) p)
         else (p, []))"

text \<open>\<open>str(i)\<close> for a non-negative integer: its decimal digits.\<close>

definition digit_char :: "nat \<Rightarrow> char" where
  "digit_char d = ''0123456789'' ! d"

function str_nat :: "nat \<Rightarrow> string" where
  "str_nat n = (if n < 10 then [digit_char n] else str_nat (n div 10) @ [digit_char (n mod 10)])"
  by pat_completeness auto
termination
  by (relation "measure id") auto

declare str_nat.simps [simp del]

definition join :: "path \<Rightarrow> string \<Rightarrow> path" where
  "join d n = d @ [n]"

definition basename :: "path \<Rightarrow> string" where
  "basename p = (if p = [] then [] else last p)"


definition is_png :: "string \<Rightarrow> bool" where
  "is_png f = endswith (lower f) ''.png''"

section \<open>read\_mappings\<close>

text \<open>
  The INI file is read by \<open>configparser\<close>, which is not part of the repository: the
  model takes what it delivers. \<open>Absent\<close> is \<open>os.path.isfile(path)\<close> being false,
  \<open>Parsed None\<close> a file with no \<open>Mappings\<close> section, \<open>Parsed (Some items)\<close> the
  list \<open>cfg.items('Mappings')\<close> in its order.
\<close>

datatype ini_file = Absent | Parsed "(string \<times> string) list option"

type_synonym mapping = "string \<rightharpoonup> string"

fun read_items :: "(string \<times> string) list \<Rightarrow> mapping \<Rightarrow> mapping" where
  "read_items [] m = m"
| "read_items ((k, v) # rest) m =
     (let key = lower (strip k);
          val = fst (splitext (strip v))
      in read_items rest (if key \<noteq> [] then m(key \<mapsto> val) else m))"

fun read_mappings :: "ini_file \<Rightarrow> mapping" where
  "read_mappings Absent = Map.empty"
| "read_mappings (Parsed None) = Map.empty"
| "read_mappings (Parsed (Some items)) = read_items items Map.empty"

section \<open>The file system and the run state\<close>

text \<open>
  The state threaded through \<open>main\<close>: the regular files (path to bytes) and the
  directories that exist, the two counters of \<open>main\<close>, and the lines printed.
  The input tree is read-only and lies outside the output root, so its files are part of
  the input (the walk) and not of this state.
\<close>

datatype event =
    ErrorSplitterFailed path
  | WarnOpacityFailed path
  | WarnNoPngs path
  | WarnRenameFailed path path
  | ProcessedLine path string "string list"
  | Summary nat nat

record state =
  files :: "(path, bytes) fmap"
  dirs :: "path fset"
  processed :: nat
  skipped :: nat
  printed :: "event list"

definition path_exists :: "state \<Rightarrow> path \<Rightarrow> bool" where
  "path_exists s p = (p |\<in>| fmdom (files s) \<or> p |\<in>| dirs s)"

definition print :: "event \<Rightarrow> state \<Rightarrow> state" where
  "print e s = s\<lparr>printed := printed s @ [e]\<rparr>"

definition mkdtemp :: "path \<Rightarrow> state \<Rightarrow> state" where
  "mkdtemp d s = s\<lparr>dirs := finsert d (dirs s)\<rparr>"

definition makedirs :: "path \<Rightarrow> state \<Rightarrow> state" where
  "makedirs d s = s\<lparr>dirs := fset_of_list (prefixes d) |\<union>| dirs s\<rparr>"

definition write_file :: "path \<Rightarrow> bytes \<Rightarrow> state \<Rightarrow> state" where
  "write_file p c s = s\<lparr>files := fmupd p c (files s)\<rparr>"

text \<open>\<open>shutil.copy2\<close> and \<open>shutil.move\<close> raise when the source file is missing: \<open>None\<close>.\<close>

definition copy2 :: "path \<Rightarrow> path \<Rightarrow> state \<Rightarrow> state option" where
  "copy2 src dst s =
     (case fmlookup (files s) src of
        None \<Rightarrow> None
      | Some c \<Rightarrow> Some (write_file dst c s))"

definition move :: "path \<Rightarrow> path \<Rightarrow> state \<Rightarrow> state option" where
  "move src dst s =
     (case fmlookup (files s) src of
        None \<Rightarrow> None
      | Some c \<Rightarrow> Some (s\<lparr>files := fmupd dst c (fmdrop src (files s))\<rparr>))"

definition rmtree :: "path \<Rightarrow> state \<Rightarrow> state" where
  "rmtree d s =
     s\<lparr>files := fmfilter (\<lambda>p. \<not> prefix d p) (files s),
       dirs := ffilter (\<lambda>p. \<not> prefix d p) (dirs s)\<rparr>"

section \<open>unique\_dest\<close>

text \<open>
  The \<open>while os.path.exists(full)\<close> loop, entered with the candidate path and the
  counter; a loop that never leaves is the value \<open>None\<close>.
\<close>

partial_function (option) unique_dest_loop ::
  "state \<Rightarrow> path \<Rightarrow> string \<Rightarrow> string \<Rightarrow> path \<Rightarrow> nat \<Rightarrow> path option" where
  "unique_dest_loop s dest_dir base ext full i =
     (if path_exists s full
      then unique_dest_loop s dest_dir base ext
             (join dest_dir (base @ ''_'' @ str_nat i @ ext)) (i + 1)
      else Some full)"

declare unique_dest_loop.simps [code]

definition unique_dest :: "state \<Rightarrow> path \<Rightarrow> string \<Rightarrow> path option" where
  "unique_dest s dest_dir filename =
     (case splitext filename of
        (base, ext) \<Rightarrow> unique_dest_loop s dest_dir base ext (join dest_dir filename) 1)"

text \<open>
  The sequence of names the specification speaks of: \<open>desiredName\<close>, \<open>stem_1.ext\<close>,
  \<open>stem_2.ext\<close>, ... with stem and extension the two halves of \<open>desiredName\<close>.
\<close>

definition candidate :: "string \<Rightarrow> nat \<Rightarrow> string" where
  "candidate filename n =
     (if n = 0 then filename
      else fst (splitext filename) @ ''_'' @ str_nat n @ snd (splitext filename))"

section \<open>apply\_half\_opacity\<close>

text \<open>
  Pillow is not part of the repository. An image is its list of RGBA pixels (8-bit
  bands, as \<open>convert("RGBA")\<close> gives them); decoding and encoding are a parameter:
  \<open>decode\<close> is \<open>Image.open(path).convert("RGBA")\<close>, \<open>None\<close> when it raises, and
  \<open>encode\<close> is what \<open>im.save\<close> writes. The point function \<open>int(i * 0.5)\<close> is applied
  to the band values 0..255, where the floating-point product is exact: \<open>half\<close> is the
  truncation of the exact product.
\<close>

record pixel =
  red :: nat
  green :: nat
  blue :: nat
  alpha :: nat

type_synonym image = "pixel list"

record codec =
  decode :: "bytes \<Rightarrow> image option"
  encode :: "image \<Rightarrow> bytes"

record config =
  apply_mapping_to_wii :: bool
  apply_opacity :: bool

definition half :: "nat \<Rightarrow> nat" where
  "half i = nat \<lfloor>of_nat i * (1 / 2 :: rat)\<rfloor>"

definition half_alpha :: "pixel \<Rightarrow> pixel" where
  "half_alpha px = px\<lparr>alpha := half (alpha px)\<rparr>"

definition apply_half_opacity :: "config \<Rightarrow> codec \<Rightarrow> path \<Rightarrow> state \<Rightarrow> state" where
  "apply_half_opacity cfg cdc p s =
     (if \<not> apply_opacity cfg then s
      else case fmlookup (files s) p of
             None \<Rightarrow> print (WarnOpacityFailed p) s
           | Some c \<Rightarrow>
               (case decode cdc c of
                  None \<Rightarrow> print (WarnOpacityFailed p) s
                | Some im \<Rightarrow> write_file p (encode cdc (map half_alpha im)) s))"

section \<open>gather\_pngs and the splitter\<close>

text \<open>
  What \<open>os.walk\<close> yields for a directory: for each directory visited, its path relative
  to the walked root and its files in the order the system enumerates them. The splitter
  is an external program: what it leaves in its output directory, and how it ended, is
  part of the input. \<open>Exited rc out\<close> is the process ending with status \<open>rc\<close>
  (\<open>subprocess.run(check=True)\<close> raises CalledProcessError when \<open>rc\<close> is not 0, the one
  exception \<open>main\<close> catches); \<open>LaunchFailed\<close> is \<open>subprocess.run\<close> raising OSError
  because the program could not be started.
\<close>

type_synonym walk = "(path \<times> (string \<times> bytes) list) list"

definition gather_pngs :: "path \<Rightarrow> walk \<Rightarrow> path list" where
  "gather_pngs folder w =
     concat (map (\<lambda>(rel, fs). map (\<lambda>f. join (folder @ rel) f)
                                   (filter (\<lambda>f. endswith (lower f) ''.png'') (map fst fs))) w)"

fun install :: "path \<Rightarrow> walk \<Rightarrow> state \<Rightarrow> state" where
  "install folder [] s = s"
| "install folder ((rel, fs) # rest) s =
     install folder rest
       ((fold (\<lambda>(f, c). write_file (join (folder @ rel) f) c) fs s)
          \<lparr>dirs := finsert (folder @ rel) (dirs (fold (\<lambda>(f, c). write_file (join (folder @ rel) f) c) fs s))\<rparr>)"

datatype split_outcome = Exited int walk | LaunchFailed

section \<open>main: one input file\<close>

text \<open>
  What the run meets at one file of the input walk: its name and bytes, the two fresh
  directories \<open>tempfile.mkdtemp\<close> hands out, how the splitter ends on it, and whether
  \<open>os.replace\<close> succeeds.
\<close>

record input_file =
  fname :: string
  data :: bytes
  tmp_src :: path
  tmp_out :: path
  split :: split_outcome
  rename_ok :: bool

datatype exn = OSError

datatype status = Done | Raised exn

text \<open>
  The loop over \<open>new_pngs\<close> (lines 160 to 170). \<open>None\<close> is \<open>unique_dest\<close> not
  returning; an exception of \<open>shutil.move\<close> leaves the loop with the state reached.
\<close>

fun move_tiles ::
  "config \<Rightarrow> mapping \<Rightarrow> string \<Rightarrow> path \<Rightarrow> path list \<Rightarrow> string list \<Rightarrow> state
     \<Rightarrow> (status \<times> string list \<times> state) option" where
  "move_tiles cfg mappings base_key wii_sub [] moved_names s = Some (Done, moved_names, s)"
| "move_tiles cfg mappings base_key wii_sub (png_path # rest) moved_names s =
     (let png_name = basename png_path;
          dest_name =
            (case mappings base_key of
               Some dest_base \<Rightarrow>
                 if apply_mapping_to_wii cfg then dest_base @ snd (splitext png_name)
                 else png_name
             | None \<Rightarrow> png_name)
      in case unique_dest s wii_sub dest_name of
           None \<Rightarrow> None
         | Some dest_full \<Rightarrow>
             (case move png_path dest_full s of
                None \<Rightarrow> Some (Raised OSError, moved_names, s)
              | Some s' \<Rightarrow>
                  move_tiles cfg mappings base_key wii_sub rest
                    (moved_names @ [basename dest_full]) s'))"

text \<open>Step 4 (lines 176 to 184): the rename of the PS2 copy; any exception is caught.\<close>

definition rename_ps2 ::
  "mapping \<Rightarrow> string \<Rightarrow> path \<Rightarrow> path \<Rightarrow> bool \<Rightarrow> state \<Rightarrow> (path \<times> state) option" where
  "rename_ps2 mappings base_key ps2_sub ps2_dest_path ok s =
     (case mappings base_key of
        None \<Rightarrow> Some (ps2_dest_path, s)
      | Some mapped_base \<Rightarrow>
          (case unique_dest s ps2_sub (mapped_base @ ''.png'') of
             None \<Rightarrow> None
           | Some mapped_full \<Rightarrow>
               (case (if ok then move ps2_dest_path mapped_full s else None) of
                  Some s' \<Rightarrow> Some (mapped_full, s')
                | None \<Rightarrow>
                    Some (ps2_dest_path, print (WarnRenameFailed ps2_dest_path mapped_full) s))))"

text \<open>The body of the \<open>try\<close> of lines 133 to 187, without the \<open>finally\<close>.\<close>

definition process_body ::
  "config \<Rightarrow> codec \<Rightarrow> mapping \<Rightarrow> path \<Rightarrow> path \<Rightarrow> path \<Rightarrow> path \<Rightarrow> input_file \<Rightarrow> state
     \<Rightarrow> (status \<times> state) option" where
  "process_body cfg cdc mappings dirpath rel_dir wii_sub ps2_sub f s =
     (let src_path = join dirpath (fname f);
          base_key = lower (fst (splitext (fname f)));
          temp_src_path = join (tmp_src f) (fname f);
          s2 = write_file temp_src_path (data f) s;
          s3 = apply_half_opacity cfg cdc temp_src_path s2
      in case unique_dest s3 ps2_sub (fname f) of
           None \<Rightarrow> None
         | Some ps2_dest_path \<Rightarrow>
             (case copy2 temp_src_path ps2_dest_path s3 of
                None \<Rightarrow> Some (Raised OSError, s3)
              | Some s4 \<Rightarrow>
                  (case split f of
                     LaunchFailed \<Rightarrow> Some (Raised OSError, mkdtemp (tmp_out f) s4)
                   | Exited rc out \<Rightarrow>
                       (let s5 = install (tmp_out f) out (mkdtemp (tmp_out f) s4)
                        in if rc \<noteq> 0
                           then Some (Done, rmtree (tmp_out f)
                                              (print (ErrorSplitterFailed src_path) s5))
                           else
                             (case (if gather_pngs (tmp_out f) out = []
                                    then Some (Done, [], print (WarnNoPngs src_path) s5)
                                    else move_tiles cfg mappings base_key wii_sub
                                           (gather_pngs (tmp_out f) out) [] s5) of
                                None \<Rightarrow> None
                              | Some (Raised e, moved_names, s6) \<Rightarrow> Some (Raised e, s6)
                              | Some (Done, moved_names, s6) \<Rightarrow>
                                  (case rename_ps2 mappings base_key ps2_sub ps2_dest_path
                                          (rename_ok f) (rmtree (tmp_out f) s6) of
                                     None \<Rightarrow> None
                                   | Some (ps2_final, s7) \<Rightarrow>
                                       Some (Done,
                                         print (ProcessedLine (join rel_dir (fname f))
                                                  (basename ps2_final) moved_names)
                                           (s7\<lparr>processed := processed s7 + 1\<rparr>))))))))"

text \<open>
  One iteration of \<open>for fname in filenames\<close>: the suffix test, \<open>mkdtemp\<close>, the
  \<open>try\<close> body, and the \<open>finally\<close> that removes the scratch source directory on every
  way out of the body.
\<close>

definition process_file ::
  "config \<Rightarrow> codec \<Rightarrow> mapping \<Rightarrow> path \<Rightarrow> path \<Rightarrow> path \<Rightarrow> path \<Rightarrow> input_file \<Rightarrow> state
     \<Rightarrow> (status \<times> state) option" where
  "process_file cfg cdc mappings dirpath rel_dir wii_sub ps2_sub f s =
     (if \<not> endswith (lower (fname f)) ''.png''
      then Some (Done, s\<lparr>skipped := skipped s + 1\<rparr>)
      else case process_body cfg cdc mappings dirpath rel_dir wii_sub ps2_sub f
                  (mkdtemp (tmp_src f) s) of
             None \<Rightarrow> None
           | Some (st, s') \<Rightarrow> Some (st, rmtree (tmp_src f) s'))"

section \<open>main: the walk\<close>

fun process_files ::
  "config \<Rightarrow> codec \<Rightarrow> mapping \<Rightarrow> path \<Rightarrow> path \<Rightarrow> path \<Rightarrow> path \<Rightarrow> input_file list \<Rightarrow> state
     \<Rightarrow> (status \<times> state) option" where
  "process_files cfg cdc mappings dirpath rel_dir wii_sub ps2_sub [] s = Some (Done, s)"
| "process_files cfg cdc mappings dirpath rel_dir wii_sub ps2_sub (f # rest) s =
     (case process_file cfg cdc mappings dirpath rel_dir wii_sub ps2_sub f s of
        None \<Rightarrow> None
      | Some (Raised e, s') \<Rightarrow> Some (Raised e, s')
      | Some (Done, s') \<Rightarrow>
          process_files cfg cdc mappings dirpath rel_dir wii_sub ps2_sub rest s')"

text \<open>
  \<open>for dirpath, _, filenames in os.walk(INPUT_ROOT)\<close>: each entry of the walk carries the
  directory's path relative to the input root (empty for the root itself) and its files.
\<close>

fun walk_dirs ::
  "config \<Rightarrow> codec \<Rightarrow> mapping \<Rightarrow> path \<Rightarrow> path \<Rightarrow> path \<Rightarrow> (path \<times> input_file list) list
     \<Rightarrow> state \<Rightarrow> (status \<times> state) option" where
  "walk_dirs cfg cdc mappings input_root wii_root ps2_root [] s = Some (Done, s)"
| "walk_dirs cfg cdc mappings input_root wii_root ps2_root ((rel_dir, filenames) # rest) s =
     (let wii_sub = wii_root @ rel_dir;
          ps2_sub = ps2_root @ rel_dir
      in case process_files cfg cdc mappings (input_root @ rel_dir) rel_dir wii_sub ps2_sub
                filenames (makedirs ps2_sub (makedirs wii_sub s)) of
           None \<Rightarrow> None
         | Some (Raised e, s') \<Rightarrow> Some (Raised e, s')
         | Some (Done, s') \<Rightarrow> walk_dirs cfg cdc mappings input_root wii_root ps2_root rest s')"

definition ensure_clean_output :: "path \<Rightarrow> state \<Rightarrow> path \<times> path \<times> state" where
  "ensure_clean_output root s =
     (let s1 = (if path_exists s root then rmtree root s else s);
          s2 = makedirs root s1;
          w = join root ''Wii'';
          p = join root ''PS2''
      in (w, p, makedirs p (makedirs w s2)))"

text \<open>
  \<open>main\<close> after the tool has been found: the mappings are read, the output root is
  reset, the walk is processed and the summary printed. An exception that leaves the
  loop ends the run before the summary.
\<close>

definition main ::
  "config \<Rightarrow> codec \<Rightarrow> ini_file \<Rightarrow> path \<Rightarrow> path \<Rightarrow> (path \<times> input_file list) list \<Rightarrow> state
     \<Rightarrow> (status \<times> state) option" where
  "main cfg cdc ini input_root output_root w s =
     (case ensure_clean_output output_root s of
        (wii_root, ps2_root, s1) \<Rightarrow>
          (case walk_dirs cfg cdc (read_mappings ini) input_root wii_root ps2_root w
                  (s1\<lparr>processed := 0, skipped := 0\<rparr>) of
             None \<Rightarrow> None
           | Some (Raised e, s') \<Rightarrow> Some (Raised e, s')
           | Some (Done, s') \<Rightarrow>
               Some (Done, print (Summary (processed s') (skipped s')) s')))"

section \<open>The enumeration order and example inputs\<close>


definition example_state :: state where
  "example_state =
     \<lparr>files = fmupd [''out'', ''PS2'', ''a.png''] ''A0''
                (fmupd [''out'', ''PS2'', ''a_1.png''] ''A1'' fmempty),
      dirs = {|[''out''], [''out'', ''PS2''], [''out'', ''Wii'']|},
      processed = 0, skipped = 0, printed = []\<rparr>"


section \<open>Decimal rendering and candidate names\<close>

lemma splitext_concat: "fst (splitext p) @ snd (splitext p) = p"
  by (simp add: splitext_def Let_def)

lemma str_nat_nonempty: "str_nat n \<noteq> []"
  by (subst str_nat.simps) simp

lemma digit_char_inj:
  assumes "a < 10" "b < 10" "digit_char a = digit_char b"
  shows "a = b"
proof -
  have d: "distinct ''0123456789''" by simp
  have "a < length ''0123456789''" "b < length ''0123456789''" using assms by simp_all
  with d assms(3) show ?thesis
    unfolding digit_char_def by (simp only: nth_eq_iff_index_eq)
qed

lemma str_nat_small: "n < 10 \<Longrightarrow> str_nat n = [digit_char n]"
  by (subst str_nat.simps) simp

lemma str_nat_large: "\<not> n < 10 \<Longrightarrow> str_nat n = str_nat (n div 10) @ [digit_char (n mod 10)]"
  by (subst str_nat.simps) simp

lemma str_nat_inj: "str_nat m = str_nat n \<Longrightarrow> m = n"
proof (induction m arbitrary: n rule: str_nat.induct)
  case (1 m)
  show ?case
  proof (cases "m < 10")
    case True
    note m = this
    show ?thesis
    proof (cases "n < 10")
      case True
      with m "1.prems" show ?thesis by (simp add: str_nat_small digit_char_inj)
    next
      case False
      with m "1.prems" str_nat_nonempty [of "n div 10"] show ?thesis
        by (simp add: str_nat_small str_nat_large)
    qed
  next
    case False
    note m = this
    show ?thesis
    proof (cases "n < 10")
      case True
      with m "1.prems" str_nat_nonempty [of "m div 10"] show ?thesis
        by (simp add: str_nat_small str_nat_large)
    next
      case False
      with m "1.prems" have e: "str_nat (m div 10) = str_nat (n div 10)"
        and l: "digit_char (m mod 10) = digit_char (n mod 10)"
        by (simp_all add: str_nat_large)
      from "1.IH" [OF m e] have "m div 10 = n div 10" .
      moreover from l have "m mod 10 = n mod 10" by (intro digit_char_inj) simp_all
      ultimately show ?thesis by (metis div_mult_mod_eq)
    qed
  qed
qed

lemma candidate_inj: "candidate f m = candidate f n \<Longrightarrow> m = n"
proof -
  assume eq: "candidate f m = candidate f n"
  let ?b = "fst (splitext f)" and ?e = "snd (splitext f)"
  have len: "k \<noteq> 0 \<Longrightarrow> length (candidate f k) > length f" for k
  proof -
    assume "k \<noteq> 0"
    then have "length (candidate f k) = length ?b + 1 + length (str_nat k) + length ?e"
      by (simp add: candidate_def)
    moreover have "length f = length ?b + length ?e"
      using splitext_concat [of f] by (metis length_append)
    ultimately show ?thesis by simp
  qed
  show ?thesis
  proof (cases "m = 0")
    case True
    then show ?thesis using eq len [of n] by (cases "n = 0") (simp_all add: candidate_def)
  next
    case False
    note m = this
    show ?thesis
    proof (cases "n = 0")
      case True
      then show ?thesis using eq len [of m] m by (simp add: candidate_def)
    next
      case False
      with m eq have "str_nat m = str_nat n" by (simp add: candidate_def)
      then show ?thesis by (rule str_nat_inj)
    qed
  qed
qed

lemma join_inj: "join d a = join d b \<Longrightarrow> a = b"
  by (simp add: join_def)

lemma unique_dest_loop_steps:
  "(\<forall>j<n. path_exists s (join d (candidate f (k + j)))) \<Longrightarrow>
   \<not> path_exists s (join d (candidate f (k + n))) \<Longrightarrow>
   unique_dest_loop s d (fst (splitext f)) (snd (splitext f)) (join d (candidate f k)) (k + 1)
     = Some (join d (candidate f (k + n)))"
proof (induction n arbitrary: k)
  case 0
  then show ?case by (subst unique_dest_loop.simps) simp
next
  case (Suc n)
  from Suc.prems(1) have here: "path_exists s (join d (candidate f k))"
    by (metis add.right_neutral zero_less_Suc)
  have rest: "\<forall>j<n. path_exists s (join d (candidate f (Suc k + j)))"
    using Suc.prems(1) by (metis Suc_less_eq add_Suc_shift)
  have free: "\<not> path_exists s (join d (candidate f (Suc k + n)))"
    using Suc.prems(2) by simp
  have next_c: "join d (fst (splitext f) @ ''_'' @ str_nat (k + 1) @ snd (splitext f))
                  = join d (candidate f (Suc k))"
    by (simp add: candidate_def)
  have "unique_dest_loop s d (fst (splitext f)) (snd (splitext f)) (join d (candidate f k)) (k + 1)
          = unique_dest_loop s d (fst (splitext f)) (snd (splitext f))
              (join d (candidate f (Suc k))) (Suc k + 1)"
    by (subst unique_dest_loop.simps) (simp only: here if_True next_c, simp)
  also have "\<dots> = Some (join d (candidate f (Suc k + n)))"
    by (rule Suc.IH [OF rest free])
  finally show ?case by simp
qed

lemma unique_dest_steps:
  "(\<forall>j<n. path_exists s (join d (candidate f j))) \<Longrightarrow>
   \<not> path_exists s (join d (candidate f n)) \<Longrightarrow>
   unique_dest s d f = Some (join d (candidate f n))"
proof -
  assume a: "\<forall>j<n. path_exists s (join d (candidate f j))"
    and b: "\<not> path_exists s (join d (candidate f n))"
  have c0: "candidate f 0 = f" by (simp add: candidate_def)
  have "unique_dest s d f =
          unique_dest_loop s d (fst (splitext f)) (snd (splitext f)) (join d (candidate f 0)) (0 + 1)"
    by (simp add: unique_dest_def c0 split: prod.splits)
  also have "\<dots> = Some (join d (candidate f (0 + n)))"
    by (rule unique_dest_loop_steps) (use a b in simp_all)
  finally show ?thesis by simp
qed

lemma some_candidate_free: "\<exists>n. \<not> path_exists s (join d (candidate f n))"
proof (rule ccontr)
  assume "\<not> ?thesis"
  then have all: "\<And>n. path_exists s (join d (candidate f n))" by blast
  have "inj (\<lambda>n. join d (candidate f n))"
    by (rule injI) (auto dest: join_inj candidate_inj)
  then have inf: "infinite (range (\<lambda>n. join d (candidate f n)))"
    using finite_imageD infinite_UNIV_nat by blast
  have "range (\<lambda>n. join d (candidate f n)) \<subseteq> fset (fmdom (files s) |\<union>| dirs s)"
    using all by (auto simp: path_exists_def)
  then have "finite (range (\<lambda>n. join d (candidate f n)))"
    by (rule finite_subset) simp
  with inf show False by blast
qed

lemma unique_dest_least:
  "unique_dest s d f = Some (join d (candidate f (LEAST n. \<not> path_exists s (join d (candidate f n)))))"
proof (rule unique_dest_steps)
  show "\<forall>j<(LEAST n. \<not> path_exists s (join d (candidate f n))). path_exists s (join d (candidate f j))"
    using not_less_Least by blast
  show "\<not> path_exists s (join d (candidate f (LEAST n. \<not> path_exists s (join d (candidate f n)))))"
    using some_candidate_free [of s d f] by (metis (mono_tags, lifting) LeastI_ex)
qed

section \<open>read\_mappings: the stored entries\<close>





section \<open>unique\_dest and gather\_pngs\<close>


lemmas ud = unique_dest_def unique_dest_loop.simps path_exists_def join_def splitext_def
  rfind_def str_nat.simps digit_char_def


text \<open>
  Claim C10. The file system holds finitely many entries, the candidate names (and the
  candidate paths) are pairwise distinct, so some candidate does not exist, and the loop
  of \<open>unique_dest\<close> returns the candidate of least index that does not exist.
\<close>

theorem unique_dest_terminates:
  "(\<forall>m n. m \<noteq> n \<longrightarrow> candidate filename m \<noteq> candidate filename n) \<and>
   (\<forall>m n. m \<noteq> n \<longrightarrow> join dest_dir (candidate filename m) \<noteq> join dest_dir (candidate filename n)) \<and>
   (\<exists>n. \<not> path_exists s (join dest_dir (candidate filename n))) \<and>
   unique_dest s dest_dir filename =
     Some (join dest_dir (candidate filename
             (LEAST n. \<not> path_exists s (join dest_dir (candidate filename n)))))"
  using candidate_inj join_inj some_candidate_free [of s dest_dir filename]
    unique_dest_least [of s dest_dir filename]
  by blast

theorem unique_dest_terminates_witness:
  "candidate ''a.png'' 1 \<noteq> candidate ''a.png'' 2 \<and>
   unique_dest example_state [''out'', ''PS2''] ''a.png'' = Some [''out'', ''PS2'', ''a_2.png''] \<and>
   (LEAST n. \<not> path_exists example_state (join [''out'', ''PS2''] (candidate ''a.png'' n))) = 2"
proof -
  note t = unique_dest_terminates [of "''a.png''" "[''out'', ''PS2'']" example_state]
  have ne: "(1::nat) \<noteq> 2" by simp
  from t ne have c: "candidate ''a.png'' 1 \<noteq> candidate ''a.png'' 2" by blast
  have v: "unique_dest example_state [''out'', ''PS2''] ''a.png'' = Some [''out'', ''PS2'', ''a_2.png'']"
    by (simp add: example_state_def ud)
  have c2: "join [''out'', ''PS2''] (candidate ''a.png'' 2) = [''out'', ''PS2'', ''a_2.png'']"
    by (simp add: candidate_def ud)
  let ?l = "LEAST n. \<not> path_exists example_state (join [''out'', ''PS2''] (candidate ''a.png'' n))"
  from t v c2 have "join [''out'', ''PS2''] (candidate ''a.png'' ?l)
                     = join [''out'', ''PS2''] (candidate ''a.png'' 2)"
    by simp
  with t have "?l = 2" by blast
  with c v show ?thesis by blast
qed



end
